theory Spec2Isabelle
  imports Complex_Main "HOL-Library.Word" "HOL-Library.DAList"
begin

section \<open>Basic-monitoring scraper of the RDS exporter\<close>

text \<open>
  A shallow embedding of \<^verbatim>\<open>basic/scraper.go\<close> and \<^verbatim>\<open>basic/instance_database.go\<close>.
  Go's \<^verbatim>\<open>float64\<close> values are read as the real numbers they denote: NaN, the
  infinities and rounding are not part of the embedding. Conversions from a float to an
  integer type truncate toward zero, as Go's do, and the integer types wrap.
\<close>

subsection \<open>Time\<close>

text \<open>
  A \<^verbatim>\<open>time.Time\<close> is an instant, counted in nanoseconds since the Unix epoch; a
  \<^verbatim>\<open>time.Duration\<close> is Go's \<^verbatim>\<open>int64\<close> count of nanoseconds.
\<close>

type_synonym Time = int
type_synonym Duration = "64 word"

definition Second :: Duration where
  "Second = 1000000000"

definition Before :: "Time \<Rightarrow> Time \<Rightarrow> bool" where
  "Before t u = (t < u)"

definition Add :: "Time \<Rightarrow> Duration \<Rightarrow> Time" where
  "Add t d = t + sint d"

definition Unix :: "Time \<Rightarrow> 64 word" where
  "Unix t = word_of_int (t div 1000000000)"

definition Seconds :: "Duration \<Rightarrow> real" where
  "Seconds d = real_of_int (sint d) / 1000000000"

subsection \<open>Datapoints and the selection of the latest one\<close>

text \<open>
  Modelled from the spec: the SDK's \<^verbatim>\<open>Datapoint\<close> type is declared outside the
  repository; following the spec's data model a datapoint carries a timestamp and an
  average value.
\<close>

record Datapoint =
  Timestamp :: Time
  Average :: real

text \<open>
  \<^verbatim>\<open>getLatestDatapoint\<close> returns a pointer into the slice it is given, or nil. The
  pointer \<^verbatim>\<open>&datapoints[dp]\<close> is the index \<open>dp\<close>; nil is \<open>None\<close>. The loop
  \<^verbatim>\<open>for dp := range datapoints\<close> visits the indices in increasing order.
\<close>

fun getLatestDatapoint_loop :: "Datapoint list \<Rightarrow> nat list \<Rightarrow> nat option \<Rightarrow> nat option" where
  "getLatestDatapoint_loop datapoints [] latest = latest"
| "getLatestDatapoint_loop datapoints (dp # rest) latest =
     getLatestDatapoint_loop datapoints rest
       (case latest of
          None \<Rightarrow> Some dp
        | Some l \<Rightarrow>
            if Before (Timestamp (datapoints ! l)) (Timestamp (datapoints ! dp))
            then Some dp else Some l)"

definition getLatestDatapoint :: "Datapoint list \<Rightarrow> nat option" where
  "getLatestDatapoint datapoints =
     getLatestDatapoint_loop datapoints [0..<length datapoints] None"

subsection \<open>Errors\<close>

text \<open>
  An error value is made by \<^verbatim>\<open>errors.New\<close> (a message), by \<^verbatim>\<open>fmt.Errorf\<close> with
  the verb \<^verbatim>\<open>%w\<close> (a message and the error it wraps), or comes back from the
  CloudWatch client.
\<close>

datatype error =
    errorString string
  | wrapError string error
  | clientError string

fun Error :: "error \<Rightarrow> string" where
  "Error (errorString s) = s"
| "Error (wrapError msg err) = msg"
| "Error (clientError s) = s"

fun errors_Is :: "error \<Rightarrow> error \<Rightarrow> bool" where
  "errors_Is (wrapError msg err) target =
     (wrapError msg err = target \<or> errors_Is err target)"
| "errors_Is err target = (err = target)"

definition ErrUnknownInstanceType :: error where
  "ErrUnknownInstanceType = errorString ''UnknownInstanceType''"

text \<open>\<^verbatim>\<open>fmt.Errorf("%w: %s", err, s)\<close>\<close>

definition Errorf_w_s :: "error \<Rightarrow> string \<Rightarrow> error" where
  "Errorf_w_s err s = wrapError (Error err @ '': '' @ s) err"

subsection \<open>The memory catalog\<close>

text \<open>
  \<^verbatim>\<open>memoryLookup\<close> is filled once at start-up from the bundled JSON file, which is data
  and not code: the lookup takes the loaded map as a parameter. A Go function returning
  \<^verbatim>\<open>(float64, error)\<close> returns the pair, with \<open>None\<close> for the nil error.
\<close>

definition GetInstanceMaxMemory :: "(string \<rightharpoonup> real) \<Rightarrow> string \<Rightarrow> real \<times> error option" where
  "GetInstanceMaxMemory memoryLookup instance =
     (case memoryLookup instance of
        Some i \<Rightarrow> (i, None)
      | None \<Rightarrow> (0.0, Some (Errorf_w_s ErrUnknownInstanceType instance)))"

subsection \<open>Numeric conversions\<close>

text \<open>
  Go's conversion of a float to an integer type drops the fraction (it truncates toward
  zero). When the truncated value does not fit the target type the conversion still
  succeeds, with a result that depends on the implementation: that result is a parameter,
  the \<open>platform\<close>. The conversion of an integer to \<^verbatim>\<open>float64\<close> gives the number
  itself.
\<close>

definition trunc_zero :: "real \<Rightarrow> int" where
  "trunc_zero v = (if 0 \<le> v then \<lfloor>v\<rfloor> else \<lceil>v\<rceil>)"

record platform =
  int64_overflow :: "real \<Rightarrow> 64 word"
  int32_overflow :: "real \<Rightarrow> 32 word"

definition int64 :: "platform \<Rightarrow> real \<Rightarrow> 64 word" where
  "int64 p v =
     (if - (2 ^ 63) \<le> trunc_zero v \<and> trunc_zero v < 2 ^ 63
      then word_of_int (trunc_zero v) else int64_overflow p v)"

definition int32 :: "platform \<Rightarrow> real \<Rightarrow> 32 word" where
  "int32 p v =
     (if - (2 ^ 31) \<le> trunc_zero v \<and> trunc_zero v < 2 ^ 31
      then word_of_int (trunc_zero v) else int32_overflow p v)"

definition float64 :: "64 word \<Rightarrow> real" where
  "float64 n = real_of_int (sint n)"

definition GBtoByte :: real where
  "GBtoByte = 1000000000"

subsection \<open>Configuration, metrics and samples\<close>

text \<open>
  The types \<^verbatim>\<open>config.Instance\<close>, \<^verbatim>\<open>sessions.Instance\<close>, \<^verbatim>\<open>Metric\<close> and
  \<^verbatim>\<open>Collector\<close> are declared in other files of the repository; the records hold the
  fields the scraper reads. The override map \<^verbatim>\<open>Labels\<close> of an instance is the list
  of its entries in the order in which the \<^verbatim>\<open>range\<close> loop visits them, which Go
  leaves open; the keys of a map are distinct, which the type \<open>alist\<close> expresses.
\<close>

type_synonym prometheus_Labels = "string \<rightharpoonup> string"

record config_Instance =
  Region :: string
  Instance :: string
  Labels :: "(string, string) alist"
  DisableEnhancedMetrics :: bool

record sessions_Instance =
  AllocatedStorage :: int
  InstanceClass :: string

record Metric =
  cwName :: string
  prometheusName :: string
  prometheusHelp :: string

type_synonym awsConfig = nat

text \<open>
  Modelled from the spec: the session provider behind \<^verbatim>\<open>collector.awsConfigs\<close> is
  keyed by region and identifier and yields a client configuration together with the
  instance's session data, or nothing.
\<close>

record Collector =
  metrics :: "Metric list"
  GetSession :: "string \<Rightarrow> string \<Rightarrow> (awsConfig \<times> sessions_Instance) option"

text \<open>
  What \<^verbatim>\<open>prometheus.MustNewConstMetric\<close> is given: the arguments of
  \<^verbatim>\<open>prometheus.NewDesc\<close> (with a copy of the constant labels, as \<^verbatim>\<open>NewDesc\<close>
  takes one), the value type and the value.
\<close>

datatype ValueType = CounterValue | GaugeValue | UntypedValue

record ConstMetric =
  desc_fqName :: string
  desc_help :: string
  desc_constLabels :: prometheus_Labels
  valueType :: ValueType
  val :: real

record Dimension =
  Name :: string
  Value :: string

record GetMetricStatisticsInput =
  in_EndTime :: Time
  in_StartTime :: Time
  in_Period :: "32 word"
  in_MetricName :: string
  in_Namespace :: string
  in_Dimensions :: "Dimension list"
  in_Statistics :: "string list"

subsection \<open>The world around the scraper\<close>

text \<open>
  The state the scraper reads and writes: the package variables, the clock (the
  \<open>n\<close>-th call of \<^verbatim>\<open>time.Now\<close> reads \<open>clock n\<close>), the CloudWatch service (its
  answer to the \<open>n\<close>-th request; the requests are recorded), the Go maps that were
  allocated (a map value is a reference, here an index into \<open>heap\<close>), the samples sent
  on the channel \<^verbatim>\<open>ch\<close> and the lines written to the logger.
\<close>

record world =
  memoryLookup :: "string \<rightharpoonup> real"
  Period :: Duration
  Delay :: Duration
  Range_var :: Duration
  clock :: "nat \<Rightarrow> Time"
  ticks :: nat
  cloudwatch :: "nat \<Rightarrow> GetMetricStatisticsInput \<Rightarrow> error + Datapoint list"
  requests :: "GetMetricStatisticsInput list"
  heap :: "prometheus_Labels list"
  ch :: "ConstMetric list"
  logged :: "(string \<times> error) list"
  plat :: platform

definition time_Now :: "world \<Rightarrow> Time \<times> world" where
  "time_Now w = (clock w (ticks w), w\<lparr>ticks := Suc (ticks w)\<rparr>)"

definition svc_GetMetricStatistics ::
  "GetMetricStatisticsInput \<Rightarrow> world \<Rightarrow> (error + Datapoint list) \<times> world" where
  "svc_GetMetricStatistics params w =
     (cloudwatch w (length (requests w)) params, w\<lparr>requests := requests w @ [params]\<rparr>)"

definition send :: "ConstMetric \<Rightarrow> world \<Rightarrow> world" where
  "send m w = w\<lparr>ch := ch w @ [m]\<rparr>"

definition log_Error :: "string \<Rightarrow> error \<Rightarrow> world \<Rightarrow> world" where
  "log_Error metric err w = w\<lparr>logged := logged w @ [(metric, err)]\<rparr>"

text \<open>Map literal, \<^verbatim>\<open>delete(m, k)\<close>, \<^verbatim>\<open>m[k] = v\<close> and \<^verbatim>\<open>maps.Clone(m)\<close>.\<close>

type_synonym addr = nat

definition new_map :: "prometheus_Labels \<Rightarrow> world \<Rightarrow> addr \<times> world" where
  "new_map m w = (length (heap w), w\<lparr>heap := heap w @ [m]\<rparr>)"

definition map_delete :: "addr \<Rightarrow> string \<Rightarrow> world \<Rightarrow> world" where
  "map_delete a k w = w\<lparr>heap := (heap w)[a := (heap w ! a)(k := None)]\<rparr>"

definition map_assign :: "addr \<Rightarrow> string \<Rightarrow> string \<Rightarrow> world \<Rightarrow> world" where
  "map_assign a k v w = w\<lparr>heap := (heap w)[a := (heap w ! a)(k \<mapsto> v)]\<rparr>"

definition maps_Clone :: "addr \<Rightarrow> world \<Rightarrow> addr \<times> world" where
  "maps_Clone a w = new_map (heap w ! a) w"

subsection \<open>The scraper\<close>

text \<open>
  The field \<^verbatim>\<open>instance\<close> is \<open>cfg_instance\<close> here; in \<^verbatim>\<open>NewScraper\<close> the local
  variable \<^verbatim>\<open>constLabels\<close> is \<open>labels\<close> and the parameter \<^verbatim>\<open>collector\<close> is
  \<open>coll\<close>, the field names being taken.
\<close>

record Scraper =
  cfg_instance :: config_Instance
  sessionInstance :: sessions_Instance
  collector :: Collector
  svc :: awsConfig
  constLabels :: addr

fun NewScraper_loop :: "(string \<times> string) list \<Rightarrow> addr \<Rightarrow> world \<Rightarrow> world" where
  "NewScraper_loop [] labels w = w"
| "NewScraper_loop ((n, v) # rest) labels w =
     NewScraper_loop rest labels
       (if v = '''' then map_delete labels n w else map_assign labels n v w)"

definition NewScraper :: "config_Instance \<Rightarrow> Collector \<Rightarrow> world \<Rightarrow> Scraper option \<times> world" where
  "NewScraper instance coll w =
     (case GetSession coll (Region instance) (Instance instance) of
        None \<Rightarrow> (None, w)
      | Some (awsConfig, sessInstance) \<Rightarrow>
          (let (labels, w1) =
                 new_map [''region'' \<mapsto> Region instance, ''instance'' \<mapsto> Instance instance] w;
               w2 = NewScraper_loop (DAList.impl_of (Labels instance)) labels w1
           in (Some \<lparr>cfg_instance = instance, sessionInstance = sessInstance,
                      collector = coll, svc = awsConfig, constLabels = labels\<rparr>,
               w2)))"

text \<open>
  The label override law in the spec's words: an override with an empty value removes the
  key, an override with a non-empty value sets it, and a key with no override keeps its
  base value, the base being \<^verbatim>\<open>region\<close> and \<^verbatim>\<open>instance\<close>.
\<close>

definition override_labels :: "config_Instance \<Rightarrow> prometheus_Labels" where
  "override_labels instance =
     (\<lambda>k. case DAList.lookup (Labels instance) k of
             Some v \<Rightarrow> if v = '''' then None else Some v
           | None \<Rightarrow> [''region'' \<mapsto> Region instance, ''instance'' \<mapsto> Instance instance] k)"

subsection \<open>The computed-value strategy\<close>

definition scrapeMetricSomewhere :: "Scraper \<Rightarrow> Metric \<Rightarrow> world \<Rightarrow> error option \<times> world" where
  "scrapeMetricSomewhere s metric w =
     (if cwName metric = ''TotalStorageSpace'' then
        (let v = real_of_int (AllocatedStorage (sessionInstance s)) * GBtoByte
         in (None,
             send \<lparr>desc_fqName = prometheusName metric, desc_help = prometheusHelp metric,
                   desc_constLabels = heap w ! constLabels s,
                   valueType = GaugeValue, val = v\<rparr> w))
      else if cwName metric = ''TotalMemory'' then
        (case GetInstanceMaxMemory (memoryLookup w) (InstanceClass (sessionInstance s)) of
           (v, Some err) \<Rightarrow> (Some err, w)
         | (v, None) \<Rightarrow>
             (None,
              send \<lparr>desc_fqName = prometheusName metric, desc_help = prometheusHelp metric,
                    desc_constLabels = heap w ! constLabels s,
                    valueType = GaugeValue, val = v\<rparr> w))
      else (None, w))"

subsection \<open>The time-series strategy\<close>

text \<open>
  A call either returns its error value or panics; the only place where the function can
  panic is the dereference of the pointer that \<^verbatim>\<open>getLatestDatapoint\<close> returned.
\<close>

datatype 'a outcome = Return 'a | Panic

definition query_params :: "Scraper \<Rightarrow> Metric \<Rightarrow> Time \<Rightarrow> world \<Rightarrow> GetMetricStatisticsInput" where
  "query_params s metric now w =
     (let end_time = Add now (- Delay w);
          period = int32 (plat w) (Seconds (Period w));
          params = \<lparr>in_EndTime = end_time,
                    in_StartTime = Add end_time (- Range_var w),
                    in_Period = period,
                    in_MetricName = cwName metric,
                    in_Namespace = ''AWS/RDS'',
                    in_Dimensions = [],
                    in_Statistics = [''Average'']\<rparr>
      in params\<lparr>in_Dimensions := in_Dimensions params @
                 [\<lparr>Name = ''DBInstanceIdentifier'', Value = Instance (cfg_instance s)\<rparr>]\<rparr>)"

definition metric_value :: "Metric \<Rightarrow> real \<Rightarrow> world \<Rightarrow> real \<times> world" where
  "metric_value metric v w =
     (if cwName metric = ''EngineUptime'' then
        (let (now, w') = time_Now w in (float64 (Unix now - int64 (plat w') v), w'))
      else (v, w))"

definition custom_labels :: "Scraper \<Rightarrow> Metric \<Rightarrow> world \<Rightarrow> addr \<times> world" where
  "custom_labels s metric w =
     (let (customLabels, w1) = maps_Clone (constLabels s) w
      in (customLabels,
          if DisableEnhancedMetrics (cfg_instance s) = True then
            (if cwName metric = ''CPUUtilization'' then
               map_assign customLabels ''mode'' ''total''
                 (map_assign customLabels ''cpu'' ''All'' w1)
             else if cwName metric = ''FreeStorageSpace'' then
               map_assign customLabels ''mountpoint'' ''/rdsdbdata'' w1
             else w1)
          else w1))"

definition scrapeMetricFromGetMetricsStatistics ::
  "Scraper \<Rightarrow> Metric \<Rightarrow> world \<Rightarrow> error option outcome \<times> world" where
  "scrapeMetricFromGetMetricsStatistics s metric w =
     (let (now, w1) = time_Now w;
          params = query_params s metric now w1;
          (resp, w2) = svc_GetMetricStatistics params w1
      in case resp of
           Inl err \<Rightarrow> (Return (Some err), w2)
         | Inr datapoints \<Rightarrow>
             if length datapoints = 0 then (Return None, w2)
             else
               (case getLatestDatapoint datapoints of
                  None \<Rightarrow> (Panic, w2)
                | Some dp \<Rightarrow>
                    (let (v, w3) = metric_value metric (Average (datapoints ! dp)) w2;
                         (customLabels, w4) = custom_labels s metric w3
                     in (Return None,
                         send \<lparr>desc_fqName = prometheusName metric,
                               desc_help = prometheusHelp metric,
                               desc_constLabels = heap w4 ! customLabels,
                               valueType = GaugeValue, val = v\<rparr> w4))))"

subsection \<open>Scrape: one goroutine per metric\<close>

text \<open>
  The body of a goroutine of \<^verbatim>\<open>Scrape\<close> runs the computed-value strategy and logs its
  error, then runs the time-series strategy and logs its error.
\<close>

definition task_computed :: "Scraper \<Rightarrow> Metric \<Rightarrow> world \<Rightarrow> world" where
  "task_computed s metric w =
     (case scrapeMetricSomewhere s metric w of
        (Some err, w') \<Rightarrow> log_Error (cwName metric) err w'
      | (None, w') \<Rightarrow> w')"

definition task_timeseries :: "Scraper \<Rightarrow> Metric \<Rightarrow> world \<Rightarrow> unit outcome \<times> world" where
  "task_timeseries s metric w =
     (case scrapeMetricFromGetMetricsStatistics s metric w of
        (Return (Some err), w') \<Rightarrow> (Return (), log_Error (cwName metric) err w')
      | (Return None, w') \<Rightarrow> (Return (), w')
      | (Panic, w') \<Rightarrow> (Panic, w'))"

text \<open>Any number of calls of the time-series strategy, one after the other.\<close>

fun scrape_calls :: "Scraper \<Rightarrow> Metric list \<Rightarrow> world \<Rightarrow> world" where
  "scrape_calls s [] w = w"
| "scrape_calls s (metric # rest) w =
     scrape_calls s rest (snd (scrapeMetricFromGetMetricsStatistics s metric w))"

text \<open>
  \<^verbatim>\<open>Scrape\<close> is a concurrent program: the calling goroutine adds the number of metrics
  to the wait group, starts one goroutine per metric and, on leaving, waits for the
  counter of the wait group to reach zero (the deferred \<^verbatim>\<open>wg.Wait()\<close>). A state holds
  the metrics the loop has not reached, the goroutines started with the place each one
  is at, the counter, the place of the caller, and the world. A goroutine is
  \<open>Spawned\<close> before its first strategy, \<open>Computed\<close> between the two, and \<open>Done\<close>
  after the second, when its deferred \<^verbatim>\<open>wg.Done()\<close> has run. A panic in a goroutine
  ends the process.
\<close>

datatype goroutine_pc = Spawned | Computed | Done

datatype caller_pc = Loop | Wait | Returned

record scrape_state =
  pending :: "Metric list"
  goroutines :: "(Metric \<times> goroutine_pc) list"
  wg :: int
  caller :: caller_pc
  crashed :: bool
  the_world :: world

definition Scrape_init :: "Scraper \<Rightarrow> world \<Rightarrow> scrape_state" where
  "Scrape_init s w =
     \<lparr>pending = metrics (collector s), goroutines = [],
      wg = int (length (metrics (collector s))), caller = Loop, crashed = False,
      the_world = w\<rparr>"

text \<open>The steps the caller can take, and the steps the \<open>i\<close>-th goroutine can take.\<close>

definition caller_steps :: "scrape_state \<Rightarrow> scrape_state list" where
  "caller_steps st =
     (case caller st of
        Loop \<Rightarrow>
          (case pending st of
             metric # rest \<Rightarrow>
               [st\<lparr>pending := rest, goroutines := goroutines st @ [(metric, Spawned)]\<rparr>]
           | [] \<Rightarrow> [st\<lparr>caller := Wait\<rparr>])
      | Wait \<Rightarrow> (if wg st = 0 then [st\<lparr>caller := Returned\<rparr>] else [])
      | Returned \<Rightarrow> [])"

definition goroutine_steps :: "Scraper \<Rightarrow> scrape_state \<Rightarrow> nat \<Rightarrow> scrape_state list" where
  "goroutine_steps s st i =
     (case goroutines st ! i of
        (metric, Spawned) \<Rightarrow>
          [st\<lparr>goroutines := (goroutines st)[i := (metric, Computed)],
              the_world := task_computed s metric (the_world st)\<rparr>]
      | (metric, Computed) \<Rightarrow>
          (case task_timeseries s metric (the_world st) of
             (Return u, w') \<Rightarrow>
               [st\<lparr>goroutines := (goroutines st)[i := (metric, Done)],
                   wg := wg st - 1, the_world := w'\<rparr>]
           | (Panic, w') \<Rightarrow> [st\<lparr>crashed := True, the_world := w'\<rparr>])
      | (metric, Done) \<Rightarrow> [])"

definition successors :: "Scraper \<Rightarrow> scrape_state \<Rightarrow> scrape_state list" where
  "successors s st =
     (if crashed st then []
      else caller_steps st @
           concat (map (goroutine_steps s st) [0..<length (goroutines st)]))"

definition step :: "Scraper \<Rightarrow> scrape_state \<Rightarrow> scrape_state \<Rightarrow> bool" where
  "step s st st' = (st' \<in> set (successors s st))"

definition reachable :: "Scraper \<Rightarrow> world \<Rightarrow> scrape_state \<Rightarrow> bool" where
  "reachable s w st = rtranclp (step s) (Scrape_init s w) st"

text \<open>What is left to do in a state: every step makes it smaller.\<close>

fun pc_left :: "goroutine_pc \<Rightarrow> nat" where
  "pc_left Spawned = 2"
| "pc_left Computed = 1"
| "pc_left Done = 0"

fun caller_left :: "caller_pc \<Rightarrow> nat" where
  "caller_left Loop = 2"
| "caller_left Wait = 1"
| "caller_left Returned = 0"

definition steps_left :: "scrape_state \<Rightarrow> nat" where
  "steps_left st =
     3 * length (pending st) + sum_list (map (pc_left \<circ> snd) (goroutines st)) +
     caller_left (caller st) + (if crashed st then 0 else 1)"

subsection \<open>A concrete instance, collector and world\<close>

text \<open>
  An instance with two label overrides (one of them empty) and enhanced monitoring
  disabled, a catalog of three metrics, and a world in which the scraper of that instance
  has been constructed (its label map is the first allocated map) and CloudWatch gives
  the same answer to every request. The properties below are evaluated on them.
\<close>

definition example_instance :: config_Instance where
  "example_instance =
     \<lparr>Region = ''eu-west-1'', Instance = ''db1'',
      Labels = DAList.Alist [(''env'', ''prod''), (''instance'', '''')],
      DisableEnhancedMetrics = True\<rparr>"

definition example_session :: sessions_Instance where
  "example_session = \<lparr>AllocatedStorage = 100, InstanceClass = ''db.t3.micro''\<rparr>"

definition example_metric :: "string \<Rightarrow> Metric" where
  "example_metric name =
     \<lparr>cwName = name, prometheusName = ''aws_rds_'' @ name, prometheusHelp = name\<rparr>"

definition example_collector :: Collector where
  "example_collector =
     \<lparr>metrics = [example_metric ''TotalMemory'', example_metric ''CPUUtilization'',
                 example_metric ''EngineUptime''],
      GetSession = (\<lambda>region name. Some (0, example_session))\<rparr>"

definition example_datapoints :: "Datapoint list" where
  "example_datapoints =
     [\<lparr>Timestamp = 1699999400000000000, Average = 5 / 2\<rparr>,
      \<lparr>Timestamp = 1699999460000000000, Average = 7 / 2\<rparr>,
      \<lparr>Timestamp = 1699999460000000000, Average = 9 / 2\<rparr>]"

definition example_platform :: platform where
  "example_platform = \<lparr>int64_overflow = (\<lambda>v. - (2 ^ 63)), int32_overflow = (\<lambda>v. - (2 ^ 31))\<rparr>"

definition example_world :: "(error + Datapoint list) \<Rightarrow> world" where
  "example_world answer =
     \<lparr>memoryLookup = [''db.t3.micro'' \<mapsto> 1073741824],
      Period = 60 * Second, Delay = 600 * Second, Range_var = 600 * Second,
      clock = (\<lambda>n. 1700000000000000000 + int n), ticks = 0,
      cloudwatch = (\<lambda>n params. answer), requests = [],
      heap = [[''region'' \<mapsto> ''eu-west-1'', ''env'' \<mapsto> ''prod'']],
      ch = [], logged = [], plat = example_platform\<rparr>"

definition example_scraper :: Scraper where
  "example_scraper =
     \<lparr>cfg_instance = example_instance, sessionInstance = example_session,
      collector = example_collector, svc = 0, constLabels = 0\<rparr>"

section \<open>Properties\<close>

subsection \<open>Selection of the latest datapoint\<close>

lemma getLatestDatapoint_loop_snoc:
  "getLatestDatapoint_loop dps (is @ [dp]) latest =
     (case getLatestDatapoint_loop dps is latest of
        None \<Rightarrow> Some dp
      | Some l \<Rightarrow>
          if Before (Timestamp (dps ! l)) (Timestamp (dps ! dp)) then Some dp else Some l)"
  by (induction "is" arbitrary: latest) simp_all

lemma timestamp_max_index:
  "\<exists>i\<le>n. \<forall>j\<le>n. Timestamp (dps ! j) \<le> Timestamp (dps ! i)"
proof (induction n)
  case 0
  show ?case by simp
next
  case (Suc n)
  then obtain i where i: "i \<le> n" "\<forall>j\<le>n. Timestamp (dps ! j) \<le> Timestamp (dps ! i)"
    by blast
  show ?case
  proof (cases "Timestamp (dps ! i) \<le> Timestamp (dps ! Suc n)")
    case True
    have "\<forall>j\<le>Suc n. Timestamp (dps ! j) \<le> Timestamp (dps ! Suc n)"
    proof (intro allI impI)
      fix j assume "j \<le> Suc n"
      then consider "j \<le> n" | "j = Suc n" by (auto simp: le_Suc_eq)
      then show "Timestamp (dps ! j) \<le> Timestamp (dps ! Suc n)"
      proof cases
        case 1
        with i have "Timestamp (dps ! j) \<le> Timestamp (dps ! i)" by simp
        with True show ?thesis by simp
      next
        case 2
        then show ?thesis by simp
      qed
    qed
    then show ?thesis by blast
  next
    case False
    have "\<forall>j\<le>Suc n. Timestamp (dps ! j) \<le> Timestamp (dps ! i)"
    proof (intro allI impI)
      fix j assume "j \<le> Suc n"
      then consider "j \<le> n" | "j = Suc n" by (auto simp: le_Suc_eq)
      then show "Timestamp (dps ! j) \<le> Timestamp (dps ! i)"
      proof cases
        case 1
        with i show ?thesis by simp
      next
        case 2
        with False show ?thesis by simp
      qed
    qed
    with i(1) show ?thesis by (meson le_SucI)
  qed
qed

lemma getLatestDatapoint_prefix:
  "getLatestDatapoint_loop dps [0..<Suc n] None =
     Some (LEAST i. i \<le> n \<and> (\<forall>j\<le>n. Timestamp (dps ! j) \<le> Timestamp (dps ! i)))"
proof (induction n)
  case 0
  show ?case by simp
next
  case (Suc n)
  let ?P = "\<lambda>m i. i \<le> m \<and> (\<forall>j\<le>m. Timestamp (dps ! j) \<le> Timestamp (dps ! i))"
  let ?l = "LEAST i. ?P n i"
  have ex: "\<exists>i. ?P n i"
    by (rule timestamp_max_index)
  then have l: "?P n ?l" by (rule LeastI_ex)
  have lmin: "\<And>i. ?P n i \<Longrightarrow> ?l \<le> i" by (rule Least_le)
  have step: "getLatestDatapoint_loop dps [0..<Suc (Suc n)] None =
    (if Timestamp (dps ! ?l) < Timestamp (dps ! Suc n) then Some (Suc n) else Some ?l)"
    using getLatestDatapoint_loop_snoc [of dps "[0..<Suc n]" "Suc n" None] Suc.IH
    by (simp add: Before_def)
  show ?case
  proof (cases "Timestamp (dps ! ?l) < Timestamp (dps ! Suc n)")
    case True
    have "(LEAST i. ?P (Suc n) i) = Suc n"
    proof (rule Least_equality)
      show "?P (Suc n) (Suc n)"
        using l True by (auto simp: le_Suc_eq)
    next
      fix i assume i: "?P (Suc n) i"
      show "Suc n \<le> i"
      proof (rule ccontr)
        assume "\<not> Suc n \<le> i"
        then have "i \<le> n" by simp
        with l have "Timestamp (dps ! i) \<le> Timestamp (dps ! ?l)" by blast
        with True i show False by force
      qed
    qed
    with step True show ?thesis by simp
  next
    case False
    have "(LEAST i. ?P (Suc n) i) = ?l"
    proof (rule Least_equality)
      show "?P (Suc n) ?l" using l False by (auto simp: le_Suc_eq)
    next
      fix i assume i: "?P (Suc n) i"
      show "?l \<le> i"
      proof (cases "i \<le> n")
        case True
        with i have "?P n i" by auto
        then show ?thesis by (rule lmin)
      next
        case False
        with l i show ?thesis by auto
      qed
    qed
    with step False show ?thesis by simp
  qed
qed

lemma getLatestDatapoint_Least:
  assumes "dps \<noteq> []"
  shows "getLatestDatapoint dps =
     Some (LEAST i. i < length dps \<and> (\<forall>j<length dps. Timestamp (dps ! j) \<le> Timestamp (dps ! i)))"
proof -
  from assms obtain n where n: "length dps = Suc n" by (cases dps) auto
  show ?thesis
    unfolding getLatestDatapoint_def n getLatestDatapoint_prefix
    by (simp add: less_Suc_eq_le)
qed

text \<open>
  Claim C1. On the empty sequence \<open>getLatestDatapoint\<close> returns nil. On a non-empty
  sequence it returns the entry whose timestamp no entry exceeds and which every earlier
  entry is strictly below: among entries with equal timestamps the first one met wins. A
  further entry replaces the pick only when its timestamp is strictly greater.
\<close>

theorem getLatestDatapoint_first_latest:
  "getLatestDatapoint [] = None \<and>
   (dps \<noteq> [] \<longrightarrow>
      (\<exists>i<length dps. getLatestDatapoint dps = Some i \<and>
         (\<forall>j<length dps. Timestamp (dps ! j) \<le> Timestamp (dps ! i)) \<and>
         (\<forall>j<i. Timestamp (dps ! j) < Timestamp (dps ! i)))) \<and>
   getLatestDatapoint (dps @ [d]) =
     (case getLatestDatapoint dps of
        None \<Rightarrow> Some (length dps)
      | Some l \<Rightarrow> if Timestamp (dps ! l) < Timestamp d then Some (length dps) else Some l)"
proof (intro conjI impI)
  show "getLatestDatapoint [] = None" by (simp add: getLatestDatapoint_def)
next
  assume ne: "dps \<noteq> []"
  let ?P = "\<lambda>i. i < length dps \<and> (\<forall>j<length dps. Timestamp (dps ! j) \<le> Timestamp (dps ! i))"
  let ?l = "LEAST i. ?P i"
  from ne obtain n where n: "length dps = Suc n" by (cases dps) auto
  have "\<exists>i. ?P i"
    using timestamp_max_index [of n dps] by (auto simp: n less_Suc_eq_le)
  then have l: "?P ?l" by (rule LeastI_ex)
  have first: "Timestamp (dps ! j) < Timestamp (dps ! ?l)" if j: "j < ?l" for j
  proof (rule ccontr)
    assume "\<not> Timestamp (dps ! j) < Timestamp (dps ! ?l)"
    then have ge: "Timestamp (dps ! ?l) \<le> Timestamp (dps ! j)" by simp
    have "j < length dps" using j l by simp
    moreover have "\<forall>k<length dps. Timestamp (dps ! k) \<le> Timestamp (dps ! j)"
      using l ge by (meson order.trans)
    ultimately have "?P j" by simp
    then have "?l \<le> j" by (rule Least_le)
    with j show False by simp
  qed
  show "\<exists>i<length dps. getLatestDatapoint dps = Some i \<and>
         (\<forall>j<length dps. Timestamp (dps ! j) \<le> Timestamp (dps ! i)) \<and>
         (\<forall>j<i. Timestamp (dps ! j) < Timestamp (dps ! i))"
    using l first getLatestDatapoint_Least [OF ne] by blast
next
  have idx: "\<And>l. l < length dps \<Longrightarrow> (dps @ [d]) ! l = dps ! l"
    by (simp add: nth_append)
  have same: "getLatestDatapoint_loop (dps @ [d]) is latest = getLatestDatapoint_loop dps is latest"
    if "set is \<subseteq> {..<length dps}" "case latest of None \<Rightarrow> True | Some l \<Rightarrow> l < length dps"
    for "is" latest
    using that
  proof (induction "is" arbitrary: latest)
    case Nil
    show ?case by simp
  next
    case (Cons i "is")
    then show ?case
      by (cases latest) (simp_all add: nth_append)
  qed
  have bound: "case getLatestDatapoint_loop dps is latest of None \<Rightarrow> True | Some l \<Rightarrow> l < length dps"
    if "set is \<subseteq> {..<length dps}" "case latest of None \<Rightarrow> True | Some l \<Rightarrow> l < length dps"
    for "is" latest
    using that
  proof (induction "is" arbitrary: latest)
    case Nil
    then show ?case by simp
  next
    case (Cons i "is")
    show ?case
      unfolding getLatestDatapoint_loop.simps
      by (rule Cons.IH) (use Cons.prems in \<open>auto split: option.splits\<close>)
  qed
  have b0: "case getLatestDatapoint_loop dps [0..<length dps] None of None \<Rightarrow> True | Some l \<Rightarrow> l < length dps"
    by (rule bound) auto
  have s0: "getLatestDatapoint_loop (dps @ [d]) [0..<length dps] None = getLatestDatapoint_loop dps [0..<length dps] None"
    by (rule same) auto
  show "getLatestDatapoint (dps @ [d]) =
     (case getLatestDatapoint dps of
        None \<Rightarrow> Some (length dps)
      | Some l \<Rightarrow> if Timestamp (dps ! l) < Timestamp d then Some (length dps) else Some l)"
  proof (cases "getLatestDatapoint_loop dps [0..<length dps] None")
    case None
    then show ?thesis
      by (simp add: getLatestDatapoint_def getLatestDatapoint_loop_snoc s0)
  next
    case (Some l)
    with b0 have "l < length dps" by simp
    with Some show ?thesis
      by (simp add: getLatestDatapoint_def getLatestDatapoint_loop_snoc s0 Before_def nth_append)
  qed
qed

theorem getLatestDatapoint_first_latest_witness:
  "[\<lparr>Timestamp = 5, Average = 1\<rparr>, \<lparr>Timestamp = 9, Average = 2\<rparr>,
    \<lparr>Timestamp = 9, Average = 3\<rparr>, \<lparr>Timestamp = 7, Average = 4\<rparr>] \<noteq> [] \<and>
   (\<exists>i<4. getLatestDatapoint
       [\<lparr>Timestamp = 5, Average = 1\<rparr>, \<lparr>Timestamp = 9, Average = 2\<rparr>,
        \<lparr>Timestamp = 9, Average = 3\<rparr>, \<lparr>Timestamp = 7, Average = 4\<rparr>] = Some i)"
proof -
  let ?dps = "[\<lparr>Timestamp = 5, Average = 1\<rparr>, \<lparr>Timestamp = 9, Average = 2\<rparr>,
      \<lparr>Timestamp = 9, Average = 3\<rparr>, \<lparr>Timestamp = 7, Average = (4::real)\<rparr>]"
  have ne: "?dps \<noteq> []" by simp
  have len: "length ?dps = 4" by simp
  from getLatestDatapoint_first_latest [of ?dps] ne
  have "\<exists>i<length ?dps. getLatestDatapoint ?dps = Some i" by blast
  with ne show ?thesis unfolding len by blast
qed

text \<open>The second of two entries with the greatest timestamp is not the pick.\<close>

lemma getLatestDatapoint_example:
  "getLatestDatapoint
     [\<lparr>Timestamp = 5, Average = 1\<rparr>, \<lparr>Timestamp = 9, Average = 2\<rparr>,
      \<lparr>Timestamp = 9, Average = 3\<rparr>, \<lparr>Timestamp = 7, Average = 4\<rparr>] = Some 1"
  by code_simp

subsection \<open>The memory catalog\<close>

text \<open>
  Claim C5. For a class that is a key of the catalog, \<open>GetInstanceMaxMemory\<close> returns
  the stored value and the nil error. For a class that is not a key it returns a non-nil
  error that wraps \<open>ErrUnknownInstanceType\<close>: it never succeeds with a default.
\<close>

theorem GetInstanceMaxMemory_lookup:
  "(catalog instance = Some V \<longrightarrow>
       GetInstanceMaxMemory catalog instance = (V, None)) \<and>
   (catalog instance = None \<longrightarrow>
       (\<exists>err. GetInstanceMaxMemory catalog instance = (0, Some err) \<and>
              errors_Is err ErrUnknownInstanceType \<and>
              Error err = ''UnknownInstanceType: '' @ instance))"
  by (simp add: GetInstanceMaxMemory_def Errorf_w_s_def ErrUnknownInstanceType_def)

theorem GetInstanceMaxMemory_lookup_witness:
  "[''db.t3.micro'' \<mapsto> 1073741824::real] ''db.t3.micro'' = Some 1073741824 \<and>
   GetInstanceMaxMemory [''db.t3.micro'' \<mapsto> 1073741824] ''db.t3.micro'' =
     (1073741824, None) \<and>
   [''db.t3.micro'' \<mapsto> 1073741824::real] ''db.x9.huge'' = None \<and>
   (\<exists>err. GetInstanceMaxMemory [''db.t3.micro'' \<mapsto> 1073741824] ''db.x9.huge'' =
            (0, Some err) \<and>
          errors_Is err ErrUnknownInstanceType \<and>
          Error err = ''UnknownInstanceType: db.x9.huge'')"
proof -
  let ?m = "[''db.t3.micro'' \<mapsto> 1073741824::real]"
  have known: "?m ''db.t3.micro'' = Some 1073741824" by simp
  have unknown: "?m ''db.x9.huge'' = None" by simp
  from GetInstanceMaxMemory_lookup [of ?m "''db.t3.micro''" 1073741824] known
  have a: "GetInstanceMaxMemory ?m ''db.t3.micro'' = (1073741824, None)" by blast
  from GetInstanceMaxMemory_lookup [of ?m "''db.x9.huge''"] unknown
  have b: "\<exists>err. GetInstanceMaxMemory ?m ''db.x9.huge'' = (0, Some err) \<and>
          errors_Is err ErrUnknownInstanceType \<and>
          Error err = ''UnknownInstanceType: db.x9.huge''" by simp
  from known a unknown b show ?thesis by blast
qed

subsection \<open>Construction of the scraper\<close>

lemma NewScraper_loop_heap:
  "a < length (heap w) \<Longrightarrow> distinct (map fst kvs) \<Longrightarrow>
   NewScraper_loop kvs a w =
     w\<lparr>heap := (heap w)[a := (\<lambda>k. case map_of kvs k of
                                     Some v \<Rightarrow> if v = '''' then None else Some v
                                   | None \<Rightarrow> (heap w ! a) k)]\<rparr>"
proof (induction kvs arbitrary: w)
  case Nil
  then show ?case by simp
next
  case (Cons kv kvs)
  obtain n v where kv: "kv = (n, v)" by (cases kv)
  let ?w1 = "if v = '''' then map_delete a n w else map_assign a n v w"
  have len: "a < length (heap ?w1)"
    using Cons.prems(1) by (simp add: map_delete_def map_assign_def)
  have dist: "distinct (map fst kvs)" using Cons.prems(2) by simp
  have fresh: "map_of kvs n = None"
    using Cons.prems(2) kv by (simp add: map_of_eq_None_iff)
  have "NewScraper_loop (kv # kvs) a w = NewScraper_loop kvs a ?w1"
    by (simp add: kv)
  also have "\<dots> = ?w1\<lparr>heap := (heap ?w1)[a := (\<lambda>k. case map_of kvs k of
                                     Some v \<Rightarrow> if v = '''' then None else Some v
                                   | None \<Rightarrow> (heap ?w1 ! a) k)]\<rparr>"
    by (rule Cons.IH [OF len dist])
  also have "\<dots> = w\<lparr>heap := (heap w)[a := (\<lambda>k. case map_of (kv # kvs) k of
                                     Some v \<Rightarrow> if v = '''' then None else Some v
                                   | None \<Rightarrow> (heap w ! a) k)]\<rparr>"
  proof -
    have "(\<lambda>k. case map_of kvs k of
                Some v \<Rightarrow> if v = '''' then None else Some v
              | None \<Rightarrow> (heap ?w1 ! a) k) =
          (\<lambda>k. case map_of (kv # kvs) k of
                Some v \<Rightarrow> if v = '''' then None else Some v
              | None \<Rightarrow> (heap w ! a) k)"
      using Cons.prems(1) fresh
      by (auto simp: kv map_delete_def map_assign_def fun_eq_iff split: option.splits)
    then show ?thesis
      by (simp add: map_delete_def map_assign_def)
  qed
  finally show ?case .
qed

lemma NewScraper_Some:
  assumes "NewScraper instance coll w = (Some s, w')"
  shows "w' = w\<lparr>heap := heap w @ [override_labels instance]\<rparr> \<and>
         constLabels s = length (heap w) \<and> cfg_instance s = instance \<and> collector s = coll"
proof -
  from assms obtain awsConfig sessInstance
    where sess: "GetSession coll (Region instance) (Instance instance) = Some (awsConfig, sessInstance)"
    by (auto simp: NewScraper_def split: option.splits)
  let ?base = "[''region'' \<mapsto> Region instance, ''instance'' \<mapsto> Instance instance]"
  let ?w1 = "w\<lparr>heap := heap w @ [?base]\<rparr>"
  have loop: "NewScraper_loop (DAList.impl_of (Labels instance)) (length (heap w)) ?w1 =
     ?w1\<lparr>heap := (heap ?w1)[length (heap w) := (\<lambda>k. case map_of (DAList.impl_of (Labels instance)) k of
                                     Some v \<Rightarrow> if v = '''' then None else Some v
                                   | None \<Rightarrow> (heap ?w1 ! length (heap w)) k)]\<rparr>"
    by (rule NewScraper_loop_heap) simp_all
  have cell: "heap ?w1 ! length (heap w) = ?base" by simp
  have "(\<lambda>k. case map_of (DAList.impl_of (Labels instance)) k of
               Some v \<Rightarrow> if v = '''' then None else Some v
             | None \<Rightarrow> (heap ?w1 ! length (heap w)) k) = override_labels instance"
    unfolding cell by (simp add: override_labels_def DAList.lookup.rep_eq)
  with loop have "NewScraper_loop (DAList.impl_of (Labels instance)) (length (heap w)) ?w1 =
     w\<lparr>heap := heap w @ [override_labels instance]\<rparr>"
    by simp
  with assms sess show ?thesis
    by (auto simp: NewScraper_def new_map_def)
qed

text \<open>
  Claim C3. In the label map built by \<open>NewScraper\<close>, a key whose override is empty is
  absent, a key whose override is not empty has the override's value, and a key with no
  override has its base value: \<^verbatim>\<open>region\<close> and \<^verbatim>\<open>instance\<close> map to the instance's
  region and identifier, and each of the two is present unless its override is empty.
\<close>

theorem NewScraper_constLabels:
  assumes "NewScraper instance coll w = (Some s, w')"
  shows "(\<forall>n. DAList.lookup (Labels instance) n = Some '''' \<longrightarrow>
            (heap w' ! constLabels s) n = None) \<and>
         (\<forall>n v. DAList.lookup (Labels instance) n = Some v \<and> v \<noteq> '''' \<longrightarrow>
            (heap w' ! constLabels s) n = Some v) \<and>
         (\<forall>n. DAList.lookup (Labels instance) n = None \<longrightarrow>
            (heap w' ! constLabels s) n =
              [''region'' \<mapsto> Region instance, ''instance'' \<mapsto> Instance instance] n) \<and>
         (DAList.lookup (Labels instance) ''region'' = None \<longrightarrow>
            (heap w' ! constLabels s) ''region'' = Some (Region instance)) \<and>
         (DAList.lookup (Labels instance) ''instance'' = None \<longrightarrow>
            (heap w' ! constLabels s) ''instance'' = Some (Instance instance)) \<and>
         (''region'' \<in> dom (heap w' ! constLabels s) \<longleftrightarrow>
            DAList.lookup (Labels instance) ''region'' \<noteq> Some '''') \<and>
         (''instance'' \<in> dom (heap w' ! constLabels s) \<longleftrightarrow>
            DAList.lookup (Labels instance) ''instance'' \<noteq> Some '''')"
proof -
  from NewScraper_Some [OF assms]
  have cell: "heap w' ! constLabels s = override_labels instance" by simp
  show ?thesis
    unfolding cell
    by (auto simp: override_labels_def dom_def split: option.splits)
qed

theorem NewScraper_constLabels_witness:
  "NewScraper example_instance example_collector ((example_world (Inr []))\<lparr>heap := []\<rparr>) =
     (Some example_scraper, example_world (Inr [])) \<and>
   (heap (example_world (Inr [])) ! constLabels example_scraper) ''instance'' = None \<and>
   (heap (example_world (Inr [])) ! constLabels example_scraper) ''env'' = Some ''prod'' \<and>
   (heap (example_world (Inr [])) ! constLabels example_scraper) ''region'' = Some ''eu-west-1'' \<and>
   ''region'' \<in> dom (heap (example_world (Inr [])) ! constLabels example_scraper) \<and>
   ''instance'' \<notin> dom (heap (example_world (Inr [])) ! constLabels example_scraper)"
proof -
  let ?w = "(example_world (Inr []))\<lparr>heap := []\<rparr>"
  let ?w' = "example_world (Inr [])"
  have run: "NewScraper example_instance example_collector ?w = (Some example_scraper, ?w')"
    by (simp add: NewScraper_def example_instance_def example_collector_def example_world_def
        example_scraper_def new_map_def map_delete_def map_assign_def DAList.impl_of_Alist
        fun_eq_iff)
  have l1: "DAList.lookup (Labels example_instance) ''instance'' = Some ''''"
    and l2: "DAList.lookup (Labels example_instance) ''env'' = Some ''prod''"
    and l3: "DAList.lookup (Labels example_instance) ''region'' = None"
    by (simp_all add: example_instance_def DAList.lookup.rep_eq DAList.impl_of_Alist)
  have r: "Region example_instance = ''eu-west-1''" by (simp add: example_instance_def)
  from NewScraper_constLabels [OF run] l1 l2 l3 r
  have "(heap ?w' ! constLabels example_scraper) ''instance'' = None"
    and "(heap ?w' ! constLabels example_scraper) ''env'' = Some ''prod''"
    and "(heap ?w' ! constLabels example_scraper) ''region'' = Some ''eu-west-1''"
    and "''region'' \<in> dom (heap ?w' ! constLabels example_scraper)"
    and "''instance'' \<notin> dom (heap ?w' ! constLabels example_scraper)"
    by simp_all
  with run show ?thesis by blast
qed

subsection \<open>The computed-value strategy\<close>

text \<open>
  Claim C6. \<open>scrapeMetricSomewhere\<close> dispatches on the catalog key. For
  \<^verbatim>\<open>TotalStorageSpace\<close> it sends one gauge whose value is the allocated storage times
  \<open>10\<^sup>9\<close>. For \<^verbatim>\<open>TotalMemory\<close> it sends one gauge whose value is the catalog's for
  the instance class, and when the class is unknown it sends nothing and returns the error.
  For any other key it sends nothing and returns nil.
\<close>

theorem scrapeMetricSomewhere_dispatch:
  "(cwName metric = ''TotalStorageSpace'' \<longrightarrow>
      scrapeMetricSomewhere s metric w =
        (None,
         w\<lparr>ch := ch w @
            [\<lparr>desc_fqName = prometheusName metric, desc_help = prometheusHelp metric,
              desc_constLabels = heap w ! constLabels s, valueType = GaugeValue,
              val = real_of_int (AllocatedStorage (sessionInstance s)) * 1000000000\<rparr>]\<rparr>)) \<and>
   (cwName metric = ''TotalMemory'' \<longrightarrow>
      (\<forall>V. memoryLookup w (InstanceClass (sessionInstance s)) = Some V \<longrightarrow>
         scrapeMetricSomewhere s metric w =
           (None,
            w\<lparr>ch := ch w @
               [\<lparr>desc_fqName = prometheusName metric, desc_help = prometheusHelp metric,
                 desc_constLabels = heap w ! constLabels s, valueType = GaugeValue,
                 val = V\<rparr>]\<rparr>)) \<and>
      (memoryLookup w (InstanceClass (sessionInstance s)) = None \<longrightarrow>
         (\<exists>err. scrapeMetricSomewhere s metric w = (Some err, w) \<and>
                errors_Is err ErrUnknownInstanceType))) \<and>
   (cwName metric \<noteq> ''TotalStorageSpace'' \<and> cwName metric \<noteq> ''TotalMemory'' \<longrightarrow>
      scrapeMetricSomewhere s metric w = (None, w))"
  by (simp add: scrapeMetricSomewhere_def send_def GBtoByte_def GetInstanceMaxMemory_def
      Errorf_w_s_def ErrUnknownInstanceType_def)

theorem scrapeMetricSomewhere_dispatch_witness:
  "scrapeMetricSomewhere example_scraper (example_metric ''TotalStorageSpace'')
       (example_world (Inr [])) =
     (None,
      (example_world (Inr []))
        \<lparr>ch := [\<lparr>desc_fqName = ''aws_rds_TotalStorageSpace'', desc_help = ''TotalStorageSpace'',
                  desc_constLabels = [''region'' \<mapsto> ''eu-west-1'', ''env'' \<mapsto> ''prod''],
                  valueType = GaugeValue, val = 100000000000\<rparr>]\<rparr>) \<and>
   scrapeMetricSomewhere example_scraper (example_metric ''TotalMemory'')
       (example_world (Inr [])) =
     (None,
      (example_world (Inr []))
        \<lparr>ch := [\<lparr>desc_fqName = ''aws_rds_TotalMemory'', desc_help = ''TotalMemory'',
                  desc_constLabels = [''region'' \<mapsto> ''eu-west-1'', ''env'' \<mapsto> ''prod''],
                  valueType = GaugeValue, val = 1073741824\<rparr>]\<rparr>) \<and>
   (\<exists>err. scrapeMetricSomewhere
            (example_scraper\<lparr>sessionInstance :=
               \<lparr>AllocatedStorage = 100, InstanceClass = ''db.x9.huge''\<rparr>\<rparr>)
            (example_metric ''TotalMemory'') (example_world (Inr [])) =
          (Some err, example_world (Inr [])) \<and>
          errors_Is err ErrUnknownInstanceType) \<and>
   scrapeMetricSomewhere example_scraper (example_metric ''CPUUtilization'')
       (example_world (Inr [])) =
     (None, example_world (Inr []))"
proof -
  let ?w = "example_world (Inr [])"
  let ?s' = "example_scraper\<lparr>sessionInstance :=
               \<lparr>AllocatedStorage = 100, InstanceClass = ''db.x9.huge''\<rparr>\<rparr>"
  have a: "scrapeMetricSomewhere example_scraper (example_metric ''TotalStorageSpace'') ?w =
     (None,
      ?w\<lparr>ch := [\<lparr>desc_fqName = ''aws_rds_TotalStorageSpace'', desc_help = ''TotalStorageSpace'',
                  desc_constLabels = [''region'' \<mapsto> ''eu-west-1'', ''env'' \<mapsto> ''prod''],
                  valueType = GaugeValue, val = 100000000000\<rparr>]\<rparr>)"
    using scrapeMetricSomewhere_dispatch
      [of "example_metric ''TotalStorageSpace''" example_scraper ?w]
    by (simp add: example_metric_def example_scraper_def example_session_def example_world_def)
  have b: "scrapeMetricSomewhere example_scraper (example_metric ''TotalMemory'') ?w =
     (None,
      ?w\<lparr>ch := [\<lparr>desc_fqName = ''aws_rds_TotalMemory'', desc_help = ''TotalMemory'',
                  desc_constLabels = [''region'' \<mapsto> ''eu-west-1'', ''env'' \<mapsto> ''prod''],
                  valueType = GaugeValue, val = 1073741824\<rparr>]\<rparr>)"
    using scrapeMetricSomewhere_dispatch
      [of "example_metric ''TotalMemory''" example_scraper ?w]
    by (simp add: example_metric_def example_scraper_def example_session_def example_world_def)
  have c: "\<exists>err. scrapeMetricSomewhere ?s' (example_metric ''TotalMemory'') ?w = (Some err, ?w) \<and>
          errors_Is err ErrUnknownInstanceType"
    using scrapeMetricSomewhere_dispatch [of "example_metric ''TotalMemory''" ?s' ?w]
    by (simp add: example_metric_def example_scraper_def example_world_def)
  have d: "scrapeMetricSomewhere example_scraper (example_metric ''CPUUtilization'') ?w =
     (None, ?w)"
    using scrapeMetricSomewhere_dispatch
      [of "example_metric ''CPUUtilization''" example_scraper ?w]
    by (simp add: example_metric_def)
  from a b c d show ?thesis by blast
qed

subsection \<open>The time-series strategy\<close>

lemma query_params_ticks [simp]:
  "query_params s metric now (w\<lparr>ticks := t\<rparr>) = query_params s metric now w"
  by (simp add: query_params_def)

lemma getLatestDatapoint_Some:
  "dps \<noteq> [] \<Longrightarrow> \<exists>dp. getLatestDatapoint dps = Some dp"
  by (simp add: getLatestDatapoint_Least)

lemma scrape_ts_error:
  assumes "cloudwatch w (length (requests w)) (query_params s metric (clock w (ticks w)) w) = Inl err"
  shows "scrapeMetricFromGetMetricsStatistics s metric w =
     (Return (Some err),
      w\<lparr>ticks := Suc (ticks w),
        requests := requests w @ [query_params s metric (clock w (ticks w)) w]\<rparr>)"
  using assms
  by (simp add: scrapeMetricFromGetMetricsStatistics_def time_Now_def
      svc_GetMetricStatistics_def Let_def)

lemma scrape_ts_empty:
  assumes "cloudwatch w (length (requests w)) (query_params s metric (clock w (ticks w)) w) = Inr []"
  shows "scrapeMetricFromGetMetricsStatistics s metric w =
     (Return None,
      w\<lparr>ticks := Suc (ticks w),
        requests := requests w @ [query_params s metric (clock w (ticks w)) w]\<rparr>)"
  using assms
  by (simp add: scrapeMetricFromGetMetricsStatistics_def time_Now_def
      svc_GetMetricStatistics_def Let_def)

lemma scrape_ts_sample:
  assumes resp: "cloudwatch w (length (requests w)) (query_params s metric (clock w (ticks w)) w) = Inr dps"
    and ne: "dps \<noteq> []"
    and dp: "getLatestDatapoint dps = Some dp"
  shows "scrapeMetricFromGetMetricsStatistics s metric w =
     (Return None,
      w\<lparr>ticks := (if cwName metric = ''EngineUptime'' then Suc (Suc (ticks w)) else Suc (ticks w)),
        requests := requests w @ [query_params s metric (clock w (ticks w)) w],
        heap := heap w @
          [if DisableEnhancedMetrics (cfg_instance s) \<and> cwName metric = ''CPUUtilization''
           then (heap w ! constLabels s)(''cpu'' \<mapsto> ''All'', ''mode'' \<mapsto> ''total'')
           else if DisableEnhancedMetrics (cfg_instance s) \<and> cwName metric = ''FreeStorageSpace''
           then (heap w ! constLabels s)(''mountpoint'' \<mapsto> ''/rdsdbdata'')
           else heap w ! constLabels s],
        ch := ch w @
          [\<lparr>desc_fqName = prometheusName metric, desc_help = prometheusHelp metric,
            desc_constLabels =
              (if DisableEnhancedMetrics (cfg_instance s) \<and> cwName metric = ''CPUUtilization''
               then (heap w ! constLabels s)(''cpu'' \<mapsto> ''All'', ''mode'' \<mapsto> ''total'')
               else if DisableEnhancedMetrics (cfg_instance s) \<and> cwName metric = ''FreeStorageSpace''
               then (heap w ! constLabels s)(''mountpoint'' \<mapsto> ''/rdsdbdata'')
               else heap w ! constLabels s),
            valueType = GaugeValue,
            val = (if cwName metric = ''EngineUptime''
                   then float64 (Unix (clock w (Suc (ticks w))) - int64 (plat w) (Average (dps ! dp)))
                   else Average (dps ! dp))\<rparr>]\<rparr>)"
  using resp ne dp
  by (simp add: scrapeMetricFromGetMetricsStatistics_def time_Now_def
      svc_GetMetricStatistics_def Let_def metric_value_def custom_labels_def
      maps_Clone_def new_map_def map_assign_def send_def nth_append)

lemma sint_uminus_64:
  fixes d :: "64 word"
  assumes "sint d \<noteq> - (2 ^ 63)"
  shows "sint (- d) = - sint d"
proof -
  have ge: "- (2 ^ 63) \<le> sint d" using sint_ge [of d] by simp
  have lt: "sint d < 2 ^ 63" using sint_lt [of d] by simp
  have "sint (- d) = signed_take_bit 63 (- sint d)"
    by (simp add: sint_word_minus)
  also have "\<dots> = - sint d"
    using ge lt assms by (simp add: signed_take_bit_int_eq_self)
  finally show ?thesis .
qed

lemma sint_word_of_int_64:
  assumes "- (2 ^ 63) \<le> k" "k < 2 ^ 63"
  shows "sint (word_of_int k :: 64 word) = k"
  using assms by (simp add: sint_sbintrunc' signed_take_bit_int_eq_self)

lemma trunc_zero_of_int [simp]: "trunc_zero (real_of_int k) = k"
  by (simp add: trunc_zero_def)

lemma Seconds_whole:
  assumes "k < 2 ^ 31"
  shows "Seconds (word_of_nat k * Second) = real k"
proof -
  have "int k * 1000000000 < 2 ^ 63" using assms by simp
  moreover have "- (2 ^ 63) \<le> int k * 1000000000" by simp
  ultimately have "sint (word_of_int (int k * 1000000000) :: 64 word) = int k * 1000000000"
    by (rule sint_word_of_int_64 [rotated])
  moreover have "(word_of_nat k * Second :: 64 word) = word_of_int (int k * 1000000000)"
    by (simp add: Second_def)
  ultimately show ?thesis by (simp add: Seconds_def)
qed

lemma int32_whole:
  assumes "k < 2 ^ 31"
  shows "int32 p (real k) = word_of_nat k"
proof -
  have "trunc_zero (real k) = int k"
    using trunc_zero_of_int [of "int k"] by simp
  with assms show ?thesis by (simp add: int32_def)
qed

lemma scrape_ts_requests:
  "requests (snd (scrapeMetricFromGetMetricsStatistics s metric w)) =
     requests w @ [query_params s metric (clock w (ticks w)) w]"
proof (cases "cloudwatch w (length (requests w)) (query_params s metric (clock w (ticks w)) w)")
  case (Inl err)
  then show ?thesis by (simp add: scrape_ts_error)
next
  case (Inr dps)
  show ?thesis
  proof (cases "dps = []")
    case True
    with Inr show ?thesis by (simp add: scrape_ts_empty)
  next
    case False
    then obtain dp where "getLatestDatapoint dps = Some dp"
      using getLatestDatapoint_Some by blast
    with Inr False show ?thesis by (simp add: scrape_ts_sample)
  qed
qed

text \<open>
  Claim C8. Every call of the time-series strategy issues one query, of a fixed shape: the
  namespace is \<^verbatim>\<open>AWS/RDS\<close>, the statistics are \<^verbatim>\<open>Average\<close> alone, the one dimension
  is \<^verbatim>\<open>DBInstanceIdentifier\<close> with the instance's identifier, the end time is the time
  read at the start of the call less \<open>Delay\<close>, the start time is the end time less
  \<open>Range\<close>, and the period is \<open>Period\<close> in seconds, converted as the code converts
  it; a \<open>Period\<close> of \<open>k\<close> whole seconds gives the period \<open>k\<close>.
\<close>

theorem query_fixed_shape:
  "\<exists>q. requests (snd (scrapeMetricFromGetMetricsStatistics s metric w)) = requests w @ [q] \<and>
        in_Namespace q = ''AWS/RDS'' \<and>
        in_Statistics q = [''Average''] \<and>
        in_Dimensions q =
          [\<lparr>Name = ''DBInstanceIdentifier'', Value = Instance (cfg_instance s)\<rparr>] \<and>
        in_MetricName q = cwName metric \<and>
        in_EndTime q = Add (clock w (ticks w)) (- Delay w) \<and>
        in_StartTime q = Add (in_EndTime q) (- Range_var w) \<and>
        in_Period q = int32 (plat w) (Seconds (Period w)) \<and>
        (sint (Delay w) \<noteq> - (2 ^ 63) \<longrightarrow>
           in_EndTime q = clock w (ticks w) - sint (Delay w)) \<and>
        (sint (Range_var w) \<noteq> - (2 ^ 63) \<longrightarrow>
           in_StartTime q = in_EndTime q - sint (Range_var w)) \<and>
        (\<forall>k<2 ^ 31. Period w = word_of_nat k * Second \<longrightarrow> in_Period q = word_of_nat k)"
proof -
  let ?q = "query_params s metric (clock w (ticks w)) w"
  have "requests (snd (scrapeMetricFromGetMetricsStatistics s metric w)) = requests w @ [?q]"
    by (rule scrape_ts_requests)
  moreover have "in_Namespace ?q = ''AWS/RDS''" "in_Statistics ?q = [''Average'']"
    "in_Dimensions ?q = [\<lparr>Name = ''DBInstanceIdentifier'', Value = Instance (cfg_instance s)\<rparr>]"
    "in_MetricName ?q = cwName metric"
    "in_EndTime ?q = Add (clock w (ticks w)) (- Delay w)"
    "in_StartTime ?q = Add (in_EndTime ?q) (- Range_var w)"
    "in_Period ?q = int32 (plat w) (Seconds (Period w))"
    by (simp_all add: query_params_def Let_def)
  moreover have "sint (Delay w) \<noteq> - (2 ^ 63) \<longrightarrow>
      in_EndTime ?q = clock w (ticks w) - sint (Delay w)"
    by (simp add: query_params_def Let_def Add_def sint_uminus_64)
  moreover have "sint (Range_var w) \<noteq> - (2 ^ 63) \<longrightarrow>
      in_StartTime ?q = in_EndTime ?q - sint (Range_var w)"
    by (simp add: query_params_def Let_def Add_def sint_uminus_64)
  moreover have "\<forall>k<2 ^ 31. Period w = word_of_nat k * Second \<longrightarrow> in_Period ?q = word_of_nat k"
    by (simp add: query_params_def Let_def Seconds_whole int32_whole)
  ultimately show ?thesis by blast
qed

lemma example_durations:
  "sint (Delay (example_world a)) = 600000000000"
  "sint (Range_var (example_world a)) = 600000000000"
  "Period (example_world a) = word_of_nat 60 * Second"
  by (simp_all add: example_world_def Second_def)

theorem query_fixed_shape_witness:
  "\<exists>q. requests (snd (scrapeMetricFromGetMetricsStatistics example_scraper
            (example_metric ''CPUUtilization'') (example_world (Inr [])))) = [q] \<and>
        in_Namespace q = ''AWS/RDS'' \<and>
        in_Statistics q = [''Average''] \<and>
        in_Dimensions q = [\<lparr>Name = ''DBInstanceIdentifier'', Value = ''db1''\<rparr>] \<and>
        in_MetricName q = ''CPUUtilization'' \<and>
        in_EndTime q = 1699999400000000000 \<and>
        in_StartTime q = 1699998800000000000 \<and>
        in_Period q = 60"
proof -
  let ?w = "example_world (Inr [])"
  let ?m = "example_metric ''CPUUtilization''"
  from query_fixed_shape [of example_scraper ?m ?w]
  obtain q where q:
    "requests (snd (scrapeMetricFromGetMetricsStatistics example_scraper ?m ?w)) = requests ?w @ [q]"
    "in_Namespace q = ''AWS/RDS''"
    "in_Statistics q = [''Average'']"
    "in_Dimensions q =
       [\<lparr>Name = ''DBInstanceIdentifier'', Value = Instance (cfg_instance example_scraper)\<rparr>]"
    "in_MetricName q = cwName ?m"
    "sint (Delay ?w) \<noteq> - (2 ^ 63) \<longrightarrow> in_EndTime q = clock ?w (ticks ?w) - sint (Delay ?w)"
    "sint (Range_var ?w) \<noteq> - (2 ^ 63) \<longrightarrow> in_StartTime q = in_EndTime q - sint (Range_var ?w)"
    "\<forall>k<2 ^ 31. Period ?w = word_of_nat k * Second \<longrightarrow> in_Period q = word_of_nat k"
    by blast
  have e: "in_EndTime q = 1699999400000000000"
    using q(6) by (simp add: example_durations) (simp add: example_world_def)
  have st: "in_StartTime q = 1699998800000000000"
    using q(7) e by (simp add: example_durations)
  have p: "in_Period q = 60"
    using q(8) example_durations(3) [of "Inr []"] by (auto dest: spec [of _ 60])
  have r: "requests ?w = []" by (simp add: example_world_def)
  have i: "Instance (cfg_instance example_scraper) = ''db1''"
    by (simp add: example_scraper_def example_instance_def)
  have n: "cwName ?m = ''CPUUtilization''" by (simp add: example_metric_def)
  from q(1-5) e st p r i n show ?thesis by simp
qed

text \<open>
  Claim C7. When the query returns no datapoints the time-series strategy sends no sample
  and returns nil, so the goroutine writes nothing to the log. When the query fails the
  strategy sends no sample either, but it returns the error, which the goroutine logs.
\<close>

theorem no_datapoints_no_sample:
  "(cloudwatch w (length (requests w)) (query_params s metric (clock w (ticks w)) w) = Inr [] \<longrightarrow>
      fst (scrapeMetricFromGetMetricsStatistics s metric w) = Return None \<and>
      ch (snd (scrapeMetricFromGetMetricsStatistics s metric w)) = ch w \<and>
      fst (task_timeseries s metric w) = Return () \<and>
      ch (snd (task_timeseries s metric w)) = ch w \<and>
      logged (snd (task_timeseries s metric w)) = logged w) \<and>
   (\<forall>err. cloudwatch w (length (requests w)) (query_params s metric (clock w (ticks w)) w) = Inl err \<longrightarrow>
      fst (scrapeMetricFromGetMetricsStatistics s metric w) = Return (Some err) \<and>
      ch (snd (scrapeMetricFromGetMetricsStatistics s metric w)) = ch w \<and>
      fst (task_timeseries s metric w) = Return () \<and>
      ch (snd (task_timeseries s metric w)) = ch w \<and>
      logged (snd (task_timeseries s metric w)) = logged w @ [(cwName metric, err)])"
  by (simp add: scrape_ts_empty scrape_ts_error task_timeseries_def log_Error_def)

theorem no_datapoints_no_sample_witness:
  "fst (scrapeMetricFromGetMetricsStatistics example_scraper (example_metric ''CPUUtilization'')
          (example_world (Inr []))) = Return None \<and>
   ch (snd (scrapeMetricFromGetMetricsStatistics example_scraper (example_metric ''CPUUtilization'')
          (example_world (Inr [])))) = [] \<and>
   logged (snd (task_timeseries example_scraper (example_metric ''CPUUtilization'')
          (example_world (Inr [])))) = [] \<and>
   fst (scrapeMetricFromGetMetricsStatistics example_scraper (example_metric ''CPUUtilization'')
          (example_world (Inl (clientError ''Throttling'')))) =
     Return (Some (clientError ''Throttling'')) \<and>
   ch (snd (scrapeMetricFromGetMetricsStatistics example_scraper (example_metric ''CPUUtilization'')
          (example_world (Inl (clientError ''Throttling''))))) = [] \<and>
   logged (snd (task_timeseries example_scraper (example_metric ''CPUUtilization'')
          (example_world (Inl (clientError ''Throttling''))))) =
     [(''CPUUtilization'', clientError ''Throttling'')]"
proof -
  let ?m = "example_metric ''CPUUtilization''"
  let ?e = "clientError ''Throttling''"
  have a: "cloudwatch (example_world (Inr [])) (length (requests (example_world (Inr []))))
       (query_params example_scraper ?m (clock (example_world (Inr [])) (ticks (example_world (Inr []))))
          (example_world (Inr []))) = Inr []"
    by (simp add: example_world_def)
  have b: "cloudwatch (example_world (Inl ?e)) (length (requests (example_world (Inl ?e))))
       (query_params example_scraper ?m (clock (example_world (Inl ?e)) (ticks (example_world (Inl ?e))))
          (example_world (Inl ?e))) = Inl ?e"
    by (simp add: example_world_def)
  have c: "ch (example_world x) = []" "logged (example_world x) = []" for x
    by (simp_all add: example_world_def)
  have n: "cwName ?m = ''CPUUtilization''" by (simp add: example_metric_def)
  from no_datapoints_no_sample [of "example_world (Inr [])" example_scraper ?m] a
  have 1: "fst (scrapeMetricFromGetMetricsStatistics example_scraper ?m (example_world (Inr []))) = Return None"
    "ch (snd (scrapeMetricFromGetMetricsStatistics example_scraper ?m (example_world (Inr [])))) = []"
    "logged (snd (task_timeseries example_scraper ?m (example_world (Inr [])))) = []"
    by (simp_all add: c)
  from no_datapoints_no_sample [of "example_world (Inl ?e)" example_scraper ?m] b
  have 2: "fst (scrapeMetricFromGetMetricsStatistics example_scraper ?m (example_world (Inl ?e))) = Return (Some ?e)"
    "ch (snd (scrapeMetricFromGetMetricsStatistics example_scraper ?m (example_world (Inl ?e)))) = []"
    "logged (snd (task_timeseries example_scraper ?m (example_world (Inl ?e)))) = [(''CPUUtilization'', ?e)]"
    by (simp_all add: c n)
  from 1 2 show ?thesis by blast
qed

text \<open>
  Claim C4. The sample of the time-series strategy carries the scraper's base labels,
  with \<^verbatim>\<open>cpu="All"\<close> and \<^verbatim>\<open>mode="total"\<close> added exactly when enhanced monitoring is
  disabled and the key is \<^verbatim>\<open>CPUUtilization\<close>, and with \<^verbatim>\<open>mountpoint="/rdsdbdata"\<close>
  added exactly when it is disabled and the key is \<^verbatim>\<open>FreeStorageSpace\<close>. In every other
  case the labels are the base labels.
\<close>

theorem enhanced_monitoring_labels:
  assumes "cloudwatch w (length (requests w)) (query_params s metric (clock w (ticks w)) w) = Inr dps"
    and "dps \<noteq> []"
  shows "\<exists>sample.
      fst (scrapeMetricFromGetMetricsStatistics s metric w) = Return None \<and>
      ch (snd (scrapeMetricFromGetMetricsStatistics s metric w)) = ch w @ [sample] \<and>
      (DisableEnhancedMetrics (cfg_instance s) \<and> cwName metric = ''CPUUtilization'' \<longrightarrow>
         desc_constLabels sample =
           (heap w ! constLabels s)(''cpu'' \<mapsto> ''All'', ''mode'' \<mapsto> ''total'')) \<and>
      (DisableEnhancedMetrics (cfg_instance s) \<and> cwName metric = ''FreeStorageSpace'' \<longrightarrow>
         desc_constLabels sample =
           (heap w ! constLabels s)(''mountpoint'' \<mapsto> ''/rdsdbdata'')) \<and>
      (\<not> DisableEnhancedMetrics (cfg_instance s) \<or>
       (cwName metric \<noteq> ''CPUUtilization'' \<and> cwName metric \<noteq> ''FreeStorageSpace'') \<longrightarrow>
         desc_constLabels sample = heap w ! constLabels s)"
proof -
  from assms(2) obtain dp where dp: "getLatestDatapoint dps = Some dp"
    using getLatestDatapoint_Some by blast
  show ?thesis
    unfolding scrape_ts_sample [OF assms dp]
    by (rule exI [of _ "\<lparr>desc_fqName = prometheusName metric, desc_help = prometheusHelp metric,
            desc_constLabels =
              (if DisableEnhancedMetrics (cfg_instance s) \<and> cwName metric = ''CPUUtilization''
               then (heap w ! constLabels s)(''cpu'' \<mapsto> ''All'', ''mode'' \<mapsto> ''total'')
               else if DisableEnhancedMetrics (cfg_instance s) \<and> cwName metric = ''FreeStorageSpace''
               then (heap w ! constLabels s)(''mountpoint'' \<mapsto> ''/rdsdbdata'')
               else heap w ! constLabels s),
            valueType = GaugeValue,
            val = (if cwName metric = ''EngineUptime''
                   then float64 (Unix (clock w (Suc (ticks w))) - int64 (plat w) (Average (dps ! dp)))
                   else Average (dps ! dp))\<rparr>"]) simp
qed

lemma example_answer:
  "cloudwatch (example_world a) (length (requests (example_world a)))
     (query_params s metric (clock (example_world a) (ticks (example_world a))) (example_world a)) = a"
  by (simp add: example_world_def)

lemma example_datapoints_nonempty: "example_datapoints \<noteq> []"
  by (simp add: example_datapoints_def)

lemma example_world_heap:
  "heap (example_world a) ! constLabels example_scraper =
     [''region'' \<mapsto> ''eu-west-1'', ''env'' \<mapsto> ''prod'']"
  "ch (example_world a) = []"
  by (simp_all add: example_world_def example_scraper_def)

theorem enhanced_monitoring_labels_witness:
  "map desc_constLabels
     (ch (snd (scrapeMetricFromGetMetricsStatistics example_scraper
        (example_metric ''CPUUtilization'') (example_world (Inr example_datapoints))))) =
     [[''region'' \<mapsto> ''eu-west-1'', ''env'' \<mapsto> ''prod'', ''cpu'' \<mapsto> ''All'',
       ''mode'' \<mapsto> ''total'']] \<and>
   map desc_constLabels
     (ch (snd (scrapeMetricFromGetMetricsStatistics example_scraper
        (example_metric ''FreeStorageSpace'') (example_world (Inr example_datapoints))))) =
     [[''region'' \<mapsto> ''eu-west-1'', ''env'' \<mapsto> ''prod'', ''mountpoint'' \<mapsto> ''/rdsdbdata'']] \<and>
   map desc_constLabels
     (ch (snd (scrapeMetricFromGetMetricsStatistics example_scraper
        (example_metric ''EngineUptime'') (example_world (Inr example_datapoints))))) =
     [[''region'' \<mapsto> ''eu-west-1'', ''env'' \<mapsto> ''prod'']] \<and>
   map desc_constLabels
     (ch (snd (scrapeMetricFromGetMetricsStatistics
        (example_scraper\<lparr>cfg_instance := example_instance\<lparr>DisableEnhancedMetrics := False\<rparr>\<rparr>)
        (example_metric ''CPUUtilization'') (example_world (Inr example_datapoints))))) =
     [[''region'' \<mapsto> ''eu-west-1'', ''env'' \<mapsto> ''prod'']]"
proof -
  let ?w = "example_world (Inr example_datapoints)"
  let ?s' = "example_scraper\<lparr>cfg_instance := example_instance\<lparr>DisableEnhancedMetrics := False\<rparr>\<rparr>"
  have flag: "DisableEnhancedMetrics (cfg_instance example_scraper)"
    "\<not> DisableEnhancedMetrics (cfg_instance ?s')"
    by (simp_all add: example_scraper_def example_instance_def)
  have cl: "constLabels ?s' = constLabels example_scraper" by simp
  have a: "map desc_constLabels
     (ch (snd (scrapeMetricFromGetMetricsStatistics example_scraper
        (example_metric ''CPUUtilization'') ?w))) =
     [[''region'' \<mapsto> ''eu-west-1'', ''env'' \<mapsto> ''prod'', ''cpu'' \<mapsto> ''All'',
       ''mode'' \<mapsto> ''total'']]"
    using enhanced_monitoring_labels
      [OF example_answer example_datapoints_nonempty,
       of example_scraper "example_metric ''CPUUtilization''"] flag
    by (auto simp: example_world_heap example_metric_def)
  have b: "map desc_constLabels
     (ch (snd (scrapeMetricFromGetMetricsStatistics example_scraper
        (example_metric ''FreeStorageSpace'') ?w))) =
     [[''region'' \<mapsto> ''eu-west-1'', ''env'' \<mapsto> ''prod'', ''mountpoint'' \<mapsto> ''/rdsdbdata'']]"
    using enhanced_monitoring_labels
      [OF example_answer example_datapoints_nonempty,
       of example_scraper "example_metric ''FreeStorageSpace''"] flag
    by (auto simp: example_world_heap example_metric_def)
  have c: "map desc_constLabels
     (ch (snd (scrapeMetricFromGetMetricsStatistics example_scraper
        (example_metric ''EngineUptime'') ?w))) =
     [[''region'' \<mapsto> ''eu-west-1'', ''env'' \<mapsto> ''prod'']]"
    using enhanced_monitoring_labels
      [OF example_answer example_datapoints_nonempty,
       of example_scraper "example_metric ''EngineUptime''"] flag
    by (auto simp: example_world_heap example_metric_def)
  have d: "map desc_constLabels
     (ch (snd (scrapeMetricFromGetMetricsStatistics ?s'
        (example_metric ''CPUUtilization'') ?w))) =
     [[''region'' \<mapsto> ''eu-west-1'', ''env'' \<mapsto> ''prod'']]"
    using enhanced_monitoring_labels
      [OF example_answer example_datapoints_nonempty,
       of ?s' "example_metric ''CPUUtilization''"] flag(2)
    unfolding cl
    by (auto simp: example_world_heap)
  from a b c d show ?thesis by blast
qed

lemma example_latest: "getLatestDatapoint example_datapoints = Some 1"
  unfolding example_datapoints_def by code_simp

lemma float64_diff:
  assumes "- (2 ^ 63) \<le> U - t" "U - t < 2 ^ 63"
  shows "float64 (word_of_int U - word_of_int t) = real_of_int (U - t)"
proof -
  have "(word_of_int U - word_of_int t :: 64 word) = word_of_int (U - t)" by simp
  then show ?thesis
    using assms by (simp only: float64_def sint_word_of_int_64)
qed

lemma scrape_ts_val:
  assumes "cloudwatch w (length (requests w)) (query_params s metric (clock w (ticks w)) w) = Inr dps"
    and "dps \<noteq> []"
    and "getLatestDatapoint dps = Some dp"
  shows "map val (ch (snd (scrapeMetricFromGetMetricsStatistics s metric w))) =
     map val (ch w) @
     [if cwName metric = ''EngineUptime''
      then float64 (Unix (clock w (Suc (ticks w))) - int64 (plat w) (Average (dps ! dp)))
      else Average (dps ! dp)]"
  by (simp add: scrape_ts_sample [OF assms])

text \<open>
  Claim C2 says that for the key \<^verbatim>\<open>EngineUptime\<close> the value sent is the current epoch
  seconds less the selected value \<open>v\<close>, for every \<open>v\<close>. The code converts \<open>v\<close> to
  \<^verbatim>\<open>int64\<close> before it subtracts, which drops the fraction: with the selected average
  \<open>7/2\<close> at epoch second \<open>1700000000\<close> the value sent is \<open>1699999997\<close>, not
  \<open>1699999996.5\<close>.
\<close>

theorem engine_uptime_counterexample:
  "map val (ch (snd (scrapeMetricFromGetMetricsStatistics example_scraper
       (example_metric ''EngineUptime'') (example_world (Inr example_datapoints))))) =
     [1699999997] \<and>
   getLatestDatapoint example_datapoints = Some 1 \<and>
   Average (example_datapoints ! 1) = 7 / 2 \<and>
   float64 (Unix (clock (example_world (Inr example_datapoints)) 1)) = 1700000000 \<and>
   (1699999997 :: real) \<noteq> 1700000000 - 7 / 2"
proof -
  let ?w = "example_world (Inr example_datapoints)"
  have t: "trunc_zero (7 / 2) = 3" by (simp add: trunc_zero_def)
  have u: "Unix (clock ?w (Suc (ticks ?w))) = word_of_int 1700000000"
    by (simp add: example_world_def Unix_def)
  have i: "int64 (plat ?w) (7 / 2) = word_of_int 3"
    by (simp add: int64_def t)
  have v: "Average (example_datapoints ! 1) = 7 / 2"
    by (simp add: example_datapoints_def)
  have f: "float64 (word_of_int 1700000000 - word_of_int 3) = 1699999997"
    using float64_diff [of 1700000000 3] by simp
  have f0: "float64 (word_of_int 1700000000) = 1700000000"
    using float64_diff [of 1700000000 0] by simp
  have "map val (ch (snd (scrapeMetricFromGetMetricsStatistics example_scraper
       (example_metric ''EngineUptime'') ?w))) = [1699999997]"
  proof -
    have n: "cwName (example_metric ''EngineUptime'') = ''EngineUptime''"
      by (simp add: example_metric_def)
    have "float64 (Unix (clock ?w (Suc (ticks ?w))) - int64 (plat ?w) (Average (example_datapoints ! 1)))
        = 1699999997"
      by (simp only: u i v f)
    then show ?thesis
      unfolding scrape_ts_val [OF example_answer example_datapoints_nonempty example_latest] n
      by (simp only: example_world_heap list.map append_Nil) simp
  qed
  moreover have "float64 (Unix (clock ?w 1)) = 1700000000"
    using u f0 by (simp add: example_world_def)
  ultimately show ?thesis using example_latest v by simp
qed

text \<open>
  Claim C2, amended. For the key \<^verbatim>\<open>EngineUptime\<close> the value sent is
  \<^verbatim>\<open>float64(time.Now().Unix() - int64(v))\<close>: whenever the truncation of \<open>v\<close> toward
  zero and the difference fit \<^verbatim>\<open>int64\<close>, it is the current epoch seconds less that
  truncation, for negative and zero \<open>v\<close> as well, and so the epoch seconds less \<open>v\<close>
  when \<open>v\<close> is a whole number. For every other key the value sent is \<open>v\<close>.
\<close>

theorem engine_uptime_transform:
  assumes "cloudwatch w (length (requests w)) (query_params s metric (clock w (ticks w)) w) = Inr dps"
    and "dps \<noteq> []"
  shows "\<exists>dp v.
      getLatestDatapoint dps = Some dp \<and>
      map val (ch (snd (scrapeMetricFromGetMetricsStatistics s metric w))) = map val (ch w) @ [v] \<and>
      (cwName metric \<noteq> ''EngineUptime'' \<longrightarrow> v = Average (dps ! dp)) \<and>
      (cwName metric = ''EngineUptime'' \<longrightarrow>
         v = float64 (Unix (clock w (Suc (ticks w))) - int64 (plat w) (Average (dps ! dp)))) \<and>
      (cwName metric = ''EngineUptime'' \<and>
       - (2 ^ 63) \<le> trunc_zero (Average (dps ! dp)) \<and>
       trunc_zero (Average (dps ! dp)) < 2 ^ 63 \<and>
       - (2 ^ 63) \<le> clock w (Suc (ticks w)) div 1000000000 - trunc_zero (Average (dps ! dp)) \<and>
       clock w (Suc (ticks w)) div 1000000000 - trunc_zero (Average (dps ! dp)) < 2 ^ 63 \<longrightarrow>
         v = real_of_int (clock w (Suc (ticks w)) div 1000000000 -
                          trunc_zero (Average (dps ! dp))) \<and>
         (Average (dps ! dp) = real_of_int (trunc_zero (Average (dps ! dp))) \<longrightarrow>
            v = real_of_int (clock w (Suc (ticks w)) div 1000000000) - Average (dps ! dp)))"
proof -
  from assms(2) obtain dp where dp: "getLatestDatapoint dps = Some dp"
    using getLatestDatapoint_Some by blast
  let ?a = "Average (dps ! dp)"
  let ?U = "clock w (Suc (ticks w)) div 1000000000"
  let ?v = "if cwName metric = ''EngineUptime''
      then float64 (Unix (clock w (Suc (ticks w))) - int64 (plat w) ?a) else ?a"
  have run: "map val (ch (snd (scrapeMetricFromGetMetricsStatistics s metric w))) =
     map val (ch w) @ [?v]"
    by (rule scrape_ts_val [OF assms dp])
  have exact: "float64 (Unix (clock w (Suc (ticks w))) - int64 (plat w) ?a) =
      real_of_int (?U - trunc_zero ?a)"
    if "- (2 ^ 63) \<le> trunc_zero ?a" "trunc_zero ?a < 2 ^ 63"
      "- (2 ^ 63) \<le> ?U - trunc_zero ?a" "?U - trunc_zero ?a < 2 ^ 63"
  proof -
    have "int64 (plat w) ?a = word_of_int (trunc_zero ?a)"
      using that(1,2) by (simp add: int64_def)
    then show ?thesis
      using float64_diff [OF that(3,4)] by (simp add: Unix_def)
  qed
  have whole: "real_of_int (?U - trunc_zero ?a) = real_of_int ?U - ?a"
    if "?a = real_of_int (trunc_zero ?a)"
    using that by simp
  show ?thesis
    apply (rule exI [of _ dp])
    apply (rule exI [of _ ?v])
    using dp run exact whole by auto
qed

lemma example_clock:
  "clock (example_world a) (Suc (ticks (example_world a))) div 1000000000 = 1700000000"
  "ch (example_world a) = []"
  by (simp_all add: example_world_def)

theorem engine_uptime_transform_witness:
  "map val (ch (snd (scrapeMetricFromGetMetricsStatistics example_scraper
       (example_metric ''EngineUptime'') (example_world (Inr example_datapoints))))) =
     [1699999997] \<and>
   map val (ch (snd (scrapeMetricFromGetMetricsStatistics example_scraper
       (example_metric ''EngineUptime'')
       (example_world (Inr [\<lparr>Timestamp = 1699999400000000000, Average = - (5 / 2)\<rparr>]))))) =
     [1700000002] \<and>
   map val (ch (snd (scrapeMetricFromGetMetricsStatistics example_scraper
       (example_metric ''EngineUptime'')
       (example_world (Inr [\<lparr>Timestamp = 1699999400000000000, Average = 0\<rparr>]))))) =
     [1700000000] \<and>
   map val (ch (snd (scrapeMetricFromGetMetricsStatistics example_scraper
       (example_metric ''CPUUtilization'') (example_world (Inr example_datapoints))))) =
     [7 / 2]"
proof -
  let ?up = "example_metric ''EngineUptime''"
  have n: "cwName ?up = ''EngineUptime''" "cwName (example_metric ''CPUUtilization'') = ''CPUUtilization''"
    by (simp_all add: example_metric_def)
  have av: "Average (example_datapoints ! 1) = 7 / 2"
    by (simp add: example_datapoints_def)
  have t1: "trunc_zero (7 / 2) = 3" and t2: "trunc_zero (- (5 / 2)) = - 2" and t3: "trunc_zero 0 = 0"
    by (simp_all add: trunc_zero_def)
  have a: "map val (ch (snd (scrapeMetricFromGetMetricsStatistics example_scraper ?up
       (example_world (Inr example_datapoints))))) = [1699999997]"
  proof -
    from engine_uptime_transform [OF example_answer example_datapoints_nonempty,
        of example_scraper ?up]
    obtain dp v where *: "getLatestDatapoint example_datapoints = Some dp"
      "map val (ch (snd (scrapeMetricFromGetMetricsStatistics example_scraper ?up
         (example_world (Inr example_datapoints))))) =
         map val (ch (example_world (Inr example_datapoints))) @ [v]"
      "cwName ?up = ''EngineUptime'' \<and>
       - (2 ^ 63) \<le> trunc_zero (Average (example_datapoints ! dp)) \<and>
       trunc_zero (Average (example_datapoints ! dp)) < 2 ^ 63 \<and>
       - (2 ^ 63) \<le> clock (example_world (Inr example_datapoints))
            (Suc (ticks (example_world (Inr example_datapoints)))) div 1000000000 -
          trunc_zero (Average (example_datapoints ! dp)) \<and>
       clock (example_world (Inr example_datapoints))
            (Suc (ticks (example_world (Inr example_datapoints)))) div 1000000000 -
          trunc_zero (Average (example_datapoints ! dp)) < 2 ^ 63 \<longrightarrow>
         v = real_of_int (clock (example_world (Inr example_datapoints))
            (Suc (ticks (example_world (Inr example_datapoints)))) div 1000000000 -
                          trunc_zero (Average (example_datapoints ! dp)))"
      by blast
    from *(1) have dp: "dp = 1" by (simp add: example_latest)
    from *(3) have "v = 1699999997"
      unfolding dp av t1 example_clock n by simp
    with *(2) show ?thesis by (simp add: example_clock)
  qed
  have single: "getLatestDatapoint [d] = Some dp \<Longrightarrow> dp = 0" for d dp
    by (simp add: getLatestDatapoint_def)
  have b: "map val (ch (snd (scrapeMetricFromGetMetricsStatistics example_scraper ?up
       (example_world (Inr [\<lparr>Timestamp = 1699999400000000000, Average = - (5 / 2)\<rparr>]))))) =
     [1700000002]"
  proof -
    let ?dps = "[\<lparr>Timestamp = 1699999400000000000, Average = - (5 / 2)\<rparr>]"
    have ne: "?dps \<noteq> []" by simp
    from engine_uptime_transform [OF example_answer ne, of example_scraper ?up]
    obtain dp v where *: "getLatestDatapoint ?dps = Some dp"
      "map val (ch (snd (scrapeMetricFromGetMetricsStatistics example_scraper ?up
         (example_world (Inr ?dps))))) = map val (ch (example_world (Inr ?dps))) @ [v]"
      "cwName ?up = ''EngineUptime'' \<and>
       - (2 ^ 63) \<le> trunc_zero (Average (?dps ! dp)) \<and>
       trunc_zero (Average (?dps ! dp)) < 2 ^ 63 \<and>
       - (2 ^ 63) \<le> clock (example_world (Inr ?dps))
            (Suc (ticks (example_world (Inr ?dps)))) div 1000000000 -
          trunc_zero (Average (?dps ! dp)) \<and>
       clock (example_world (Inr ?dps))
            (Suc (ticks (example_world (Inr ?dps)))) div 1000000000 -
          trunc_zero (Average (?dps ! dp)) < 2 ^ 63 \<longrightarrow>
         v = real_of_int (clock (example_world (Inr ?dps))
            (Suc (ticks (example_world (Inr ?dps)))) div 1000000000 -
                          trunc_zero (Average (?dps ! dp)))"
      by blast
    from *(1) have dp: "dp = 0" by (rule single)
    from *(3) have "v = 1700000002"
      unfolding dp example_clock n by (simp add: t2)
    with *(2) show ?thesis by (simp add: example_clock)
  qed
  have c: "map val (ch (snd (scrapeMetricFromGetMetricsStatistics example_scraper ?up
       (example_world (Inr [\<lparr>Timestamp = 1699999400000000000, Average = 0\<rparr>]))))) =
     [1700000000]"
  proof -
    let ?dps = "[\<lparr>Timestamp = 1699999400000000000, Average = 0::real\<rparr>]"
    have ne: "?dps \<noteq> []" by simp
    from engine_uptime_transform [OF example_answer ne, of example_scraper ?up]
    obtain dp v where *: "getLatestDatapoint ?dps = Some dp"
      "map val (ch (snd (scrapeMetricFromGetMetricsStatistics example_scraper ?up
         (example_world (Inr ?dps))))) = map val (ch (example_world (Inr ?dps))) @ [v]"
      "cwName ?up = ''EngineUptime'' \<and>
       - (2 ^ 63) \<le> trunc_zero (Average (?dps ! dp)) \<and>
       trunc_zero (Average (?dps ! dp)) < 2 ^ 63 \<and>
       - (2 ^ 63) \<le> clock (example_world (Inr ?dps))
            (Suc (ticks (example_world (Inr ?dps)))) div 1000000000 -
          trunc_zero (Average (?dps ! dp)) \<and>
       clock (example_world (Inr ?dps))
            (Suc (ticks (example_world (Inr ?dps)))) div 1000000000 -
          trunc_zero (Average (?dps ! dp)) < 2 ^ 63 \<longrightarrow>
         v = real_of_int (clock (example_world (Inr ?dps))
            (Suc (ticks (example_world (Inr ?dps)))) div 1000000000 -
                          trunc_zero (Average (?dps ! dp)))"
      by blast
    from *(1) have dp: "dp = 0" by (rule single)
    from *(3) have "v = 1700000000"
      unfolding dp example_clock n by (simp add: t3)
    with *(2) show ?thesis by (simp add: example_clock)
  qed
  have d: "map val (ch (snd (scrapeMetricFromGetMetricsStatistics example_scraper
       (example_metric ''CPUUtilization'') (example_world (Inr example_datapoints))))) = [7 / 2]"
  proof -
    from engine_uptime_transform [OF example_answer example_datapoints_nonempty,
        of example_scraper "example_metric ''CPUUtilization''"]
    obtain dp v where *: "getLatestDatapoint example_datapoints = Some dp"
      "map val (ch (snd (scrapeMetricFromGetMetricsStatistics example_scraper
         (example_metric ''CPUUtilization'') (example_world (Inr example_datapoints))))) =
         map val (ch (example_world (Inr example_datapoints))) @ [v]"
      "cwName (example_metric ''CPUUtilization'') \<noteq> ''EngineUptime'' \<longrightarrow>
         v = Average (example_datapoints ! dp)"
      by blast
    from *(1) have dp: "dp = 1" by (simp add: example_latest)
    from *(3) have "v = 7 / 2" unfolding dp av n by simp
    with *(2) show ?thesis by (simp add: example_clock)
  qed
  from a b c d show ?thesis by blast
qed

end
